theory Spec2Isabelle
  imports Main
begin

section \<open>The date validation directive\<close>

text \<open>
  A shallow embedding of \<^verbatim>\<open>src/src/app/directives/date-validation.directive copy.ts\<close>.
  The directive keeps the fragments of a date in the mutable fields \<^verbatim>\<open>day\<close>,
  \<^verbatim>\<open>month\<close>, \<^verbatim>\<open>year\<close> and \<^verbatim>\<open>date\<close>; every method that writes
  one of them is modelled as a function that takes the state and returns the state next to
  its result.

  A JavaScript string is modelled as a \<^typ>\<open>string\<close>, one \<^typ>\<open>char\<close> for each code
  unit. The directive only ever tells the ten digits and the slash from all other
  characters.
\<close>

subsection \<open>JavaScript primitives\<close>

text \<open>
  \<^verbatim>\<open>s.slice(a)\<close> and \<^verbatim>\<open>s.slice(a, b)\<close> for indices that are not negative (all
  indices of the directive are positions of slashes or lengths): an index past the end
  is clamped, and \<^verbatim>\<open>b < a\<close> gives the empty string.
\<close>

definition sliceFrom :: "string \<Rightarrow> nat \<Rightarrow> string" where
  "sliceFrom s a = drop a s"

definition slice :: "string \<Rightarrow> nat \<Rightarrow> nat \<Rightarrow> string" where
  "slice s a b = take (b - a) (drop a s)"

text \<open>
  \<^verbatim>\<open>s.substring(0, b)\<close> where \<^verbatim>\<open>b\<close> is an integer: a negative end is taken as 0.
\<close>

definition substring0 :: "string \<Rightarrow> int \<Rightarrow> string" where
  "substring0 s b = take (nat b) s"

definition isDigit :: "char \<Rightarrow> bool" where
  "isDigit c = (c \<in> set ''0123456789'')"

definition digitValue :: "char \<Rightarrow> nat" where
  "digitValue c = of_char c - 48"

text \<open>
  \<^verbatim>\<open>Number(s)\<close> on the strings the directive converts, which are made of digits and
  slashes: the empty string is 0, a string of digits is its decimal value, and a string
  with a slash is \<^verbatim>\<open>NaN\<close>, here \<^const>\<open>None\<close>. The value is kept exact; the directive
  only compares it with bounds far below \<^verbatim>\<open>2 ** 53\<close>, where rounding to a double does
  not change the outcome of a comparison.
\<close>

definition Number :: "string \<Rightarrow> nat option" where
  "Number s = (if list_all isDigit s
               then Some (foldl (\<lambda>n c. 10 * n + digitValue c) 0 s)
               else None)"

text \<open>Every comparison with \<^verbatim>\<open>NaN\<close> is false.\<close>

definition js_gt :: "nat option \<Rightarrow> int \<Rightarrow> bool" where
  "js_gt a k = (case a of None \<Rightarrow> False | Some n \<Rightarrow> k < int n)"

definition js_lt :: "nat option \<Rightarrow> int \<Rightarrow> bool" where
  "js_lt a k = (case a of None \<Rightarrow> False | Some n \<Rightarrow> int n < k)"

text \<open>\<^verbatim>\<open>xs.includes(Number(s))\<close>: \<^verbatim>\<open>NaN\<close> is in none of the two month tables.\<close>

definition arrayIncludes :: "nat list \<Rightarrow> nat option \<Rightarrow> bool" where
  "arrayIncludes xs a = (case a of None \<Rightarrow> False | Some n \<Rightarrow> n \<in> set xs)"

text \<open>\<^verbatim>\<open>s[0] === c\<close>: the index is \<^verbatim>\<open>undefined\<close> on the empty string.\<close>

definition firstCharIs :: "string \<Rightarrow> char \<Rightarrow> bool" where
  "firstCharIs s c = (case s of [] \<Rightarrow> False | x # _ \<Rightarrow> x = c)"

text \<open>
  \<^verbatim>\<open>s.replace(/^0+/, r)\<close>: the leading run of zeros, when there is one, is replaced
  by \<^verbatim>\<open>r\<close>; \<^verbatim>\<open>/^0+/.test(s)\<close> says whether there is one.
\<close>

definition testLeadingZeros :: "string \<Rightarrow> bool" where
  "testLeadingZeros s = firstCharIs s (CHR ''0'')"

definition replaceLeadingZeros :: "string \<Rightarrow> string \<Rightarrow> string" where
  "replaceLeadingZeros s r =
     (if testLeadingZeros s then r @ dropWhile (\<lambda>c. c = CHR ''0'') s else s)"

subsection \<open>The state of the directive\<close>

datatype date_format = MDY | DMY

record state =
  dateFormat :: date_format
  startYear :: int
  endYear :: int
  day :: string
  month :: string
  year :: string
  date :: string

text \<open>The fields as the class initialises them, for given inputs of the directive.\<close>

definition initial :: "date_format \<Rightarrow> int \<Rightarrow> int \<Rightarrow> state" where
  "initial f lo hi =
     \<lparr>dateFormat = f, startYear = lo, endYear = hi,
      day = [], month = [], year = [], date = []\<rparr>"

definition defaultState :: state where
  "defaultState = initial MDY 1000 9999"

subsection \<open>Helpers\<close>

fun findSlashFrom :: "string \<Rightarrow> nat \<Rightarrow> nat \<Rightarrow> nat \<Rightarrow> nat" where
  "findSlashFrom [] i count limit = 0"
| "findSlashFrom (c # cs) i count limit =
     (if c = CHR ''/''
      then (if count + 1 = limit then i
            else findSlashFrom cs (i + 1) (count + 1) limit)
      else findSlashFrom cs (i + 1) count limit)"

definition findSlashPosition :: "string \<Rightarrow> nat \<Rightarrow> nat" where
  "findSlashPosition v limit = findSlashFrom v 0 0 limit"

definition removeSlashAfterThirdOccurrence :: "string \<Rightarrow> string" where
  "removeSlashAfterThirdOccurrence v =
     (let position = findSlashPosition v 3
      in if position > 0 then substring0 v (int position) else v)"

text \<open>\<^verbatim>\<open>(value.match(/\//g) || []).length\<close> is the number of slashes.\<close>

definition countSlashes :: "string \<Rightarrow> nat" where
  "countSlashes v = length (filter (\<lambda>c. c = CHR ''/'') v)"

definition checkSlashPosition :: "string \<Rightarrow> string" where
  "checkSlashPosition v =
     (if firstCharIs v (CHR ''/'') then []
      else if countSlashes v > 2 then removeSlashAfterThirdOccurrence v
      else v)"

text \<open>\<^verbatim>\<open>s.replace(/[^0-9/]/g, '')\<close>\<close>

definition stripIllegal :: "string \<Rightarrow> string" where
  "stripIllegal v = filter (\<lambda>c. isDigit c \<or> c = CHR ''/'') v"

definition checkIsLeapYear :: "string \<Rightarrow> bool" where
  "checkIsLeapYear leapYear =
     (case Number leapYear of
        None \<Rightarrow> False
      | Some y \<Rightarrow> (y mod 4 = 0 \<and> y mod 100 \<noteq> 0) \<or> y mod 400 = 0)"

text \<open>
  \<^verbatim>\<open>getNoOfDays(month: string = this.month)\<close>: the argument is optional, and the stored
  month stands in for a missing one.
\<close>

definition getNoOfDays :: "state \<Rightarrow> string option \<Rightarrow> nat" where
  "getNoOfDays s arg =
     (let m = (case arg of None \<Rightarrow> month s | Some a \<Rightarrow> a)
      in if m = [] then 31
         else if arrayIncludes [1, 3, 5, 7, 8, 10, 12] (Number m) then 31
         else if arrayIncludes [4, 6, 9, 11] (Number m) then 30
         else 29)"

definition removeLeadingZero :: "string \<Rightarrow> string" where
  "removeLeadingZero input =
     (if js_gt (Number input) 9 \<and> testLeadingZeros input
      then replaceLeadingZeros input []
      else replaceLeadingZeros input ''0'')"

subsection \<open>The validators\<close>

definition validateMonthIfBeforeDay :: "state \<Rightarrow> string \<Rightarrow> nat \<Rightarrow> string \<times> state" where
  "validateMonthIfBeforeDay s v monthDateDivider =
     (let m = (if monthDateDivider = 0 then v else slice v 0 monthDateDivider)
      in if js_gt (Number m) 12 then (month s, s)
         else let s' = s\<lparr>month := removeLeadingZero m\<rparr>
              in (month s' @ sliceFrom v (length m), s'))"

definition validateDayIfBeforeMonth :: "state \<Rightarrow> string \<Rightarrow> nat \<Rightarrow> string \<times> state" where
  "validateDayIfBeforeMonth s v monthDateDivider =
     (let d = (if monthDateDivider = 0 then v else slice v 0 monthDateDivider)
      in if js_gt (Number d) 31 then (day s, s)
         else let s' = s\<lparr>day := removeLeadingZero d\<rparr>
              in (day s' @ sliceFrom v (length d), s'))"

definition validateMonthIfAfterDay ::
  "state \<Rightarrow> string \<Rightarrow> nat \<Rightarrow> nat \<Rightarrow> string \<times> state" where
  "validateMonthIfAfterDay s v monthDateDivider dateYearDivider =
     (let limit = monthDateDivider + 1;
          monthStartIndex = length (day s) + 1;
          valueBeforeMonthDateDivider = slice v 0 limit;
          m = (if dateYearDivider = 0 then sliceFrom v limit
               else slice v limit dateYearDivider)
      in if day s = ''0'' then (slice v 0 monthDateDivider, s)
         else if m = [] then (valueBeforeMonthDateDivider, s)
         else if js_gt (Number m) 12
                 \<or> js_gt (Number (day s)) (int (getNoOfDays s (Some m)))
         then (valueBeforeMonthDateDivider @ month s, s)
         else let s' = s\<lparr>month := removeLeadingZero m\<rparr>
              in (slice v 0 monthStartIndex @ month s'
                    @ sliceFrom v (monthStartIndex + length m), s'))"

definition validateDayIfAfterMonth ::
  "state \<Rightarrow> string \<Rightarrow> nat \<Rightarrow> nat \<Rightarrow> string \<times> state" where
  "validateDayIfAfterMonth s v monthDateDivider dateYearDivider =
     (let limit = monthDateDivider + 1;
          totalDays = getNoOfDays s None;
          dayStartIndex = length (month s) + 1;
          valueBeforeMonthDateDivider = slice v 0 limit;
          d = (if dateYearDivider = 0 then sliceFrom v limit
               else slice v limit dateYearDivider)
      in if month s = ''0'' then (slice v 0 monthDateDivider, s)
         else if d = [] then (valueBeforeMonthDateDivider, s)
         else if js_gt (Number d) (int totalDays)
         then (valueBeforeMonthDateDivider @ day s, s)
         else let s' = s\<lparr>day := removeLeadingZero d\<rparr>
              in (slice v 0 dayStartIndex @ day s'
                    @ sliceFrom v (dayStartIndex + length d), s'))"

definition rearrangeBasedOnDateFormat ::
  "state \<Rightarrow> string \<Rightarrow> nat \<Rightarrow> nat \<Rightarrow> string \<times> state" where
  "rearrangeBasedOnDateFormat s v monthDateDivider dateYearDivider =
     (let (v1, s1) = (if dateFormat s = MDY
                      then validateMonthIfBeforeDay s v monthDateDivider
                      else validateDayIfBeforeMonth s v monthDateDivider)
      in if monthDateDivider \<noteq> 0
         then (if dateFormat s1 = MDY
               then validateDayIfAfterMonth s1 v1 monthDateDivider dateYearDivider
               else validateMonthIfAfterDay s1 v1 monthDateDivider dateYearDivider)
         else (v1, s1))"

definition validateYear :: "state \<Rightarrow> string \<Rightarrow> nat \<Rightarrow> string \<times> state" where
  "validateYear s v dateYearDivider =
     (let y = (if dateYearDivider \<noteq> 0 then sliceFrom v (dateYearDivider + 1) else []);
          previousValue = substring0 v (int dateYearDivider + 1) @ year s
      in if day s = ''0'' \<or> month s = ''0'' then (slice v 0 dateYearDivider, s)
         else if y \<noteq> []
                 \<and> (firstCharIs y (CHR ''0'')
                    \<or> (length y \<ge> 4 \<and> js_lt (Number y) (startYear s))
                    \<or> js_gt (Number y) (endYear s))
         then (previousValue, s)
         else if y \<noteq> [] \<and> (month s = ''2'' \<or> month s = ''02'') \<and> day s = ''29''
                 \<and> length y = 4 \<and> \<not> checkIsLeapYear y
         then (substring0 v (int (length v) - 1), s)
         else (v, s\<lparr>year := y\<rparr>))"

definition clearSpecificPartOfDateIfEmpty :: "state \<Rightarrow> nat \<Rightarrow> nat \<Rightarrow> state" where
  "clearSpecificPartOfDateIfEmpty s monthDateDivider dateYearDivider =
     (let s1 = (if dateFormat s = DMY
                then s\<lparr>month := (if monthDateDivider = 0 then [] else month s)\<rparr>
                else s\<lparr>day := (if monthDateDivider = 0 then [] else day s)\<rparr>)
      in s1\<lparr>year := (if dateYearDivider = 0 then [] else year s1)\<rparr>)"

subsection \<open>The two operations\<close>

text \<open>
  \<^verbatim>\<open>restrictInput\<close> is what the specification calls \<^emph>\<open>process\<close>: it returns the
  text to display and leaves the fields updated.
\<close>

definition restrictInput :: "state \<Rightarrow> string \<Rightarrow> string \<times> state" where
  "restrictInput s raw =
     (let monthDateDivider = findSlashPosition raw 1;
          DateYearDivider = findSlashPosition raw 2;
          (v1, s1) = rearrangeBasedOnDateFormat s
                       (stripIllegal (checkSlashPosition raw))
                       monthDateDivider DateYearDivider;
          (v2, s2) = (if DateYearDivider \<noteq> 0 then validateYear s1 v1 DateYearDivider
                      else (v1, s1));
          s3 = clearSpecificPartOfDateIfEmpty s2 monthDateDivider DateYearDivider
      in (substring0 v2 10, s3))"

text \<open>
  \<^verbatim>\<open>clearDateIfNotValid\<close> is what the specification calls \<^emph>\<open>finalize\<close>. It writes
  the value of the input element or the field \<^verbatim>\<open>date\<close>; the text shown by the element
  is passed in and returned.
\<close>

definition clearDateIfNotValid :: "state \<Rightarrow> string \<Rightarrow> string \<times> state" where
  "clearDateIfNotValid s shown =
     (if day s = [] \<or> month s = []
         \<or> js_lt (Number (year s)) (startYear s)
         \<or> js_gt (Number (year s)) (endYear s)
      then ([], s)
      else (shown, s\<lparr>date := day s @ ''/'' @ month s @ ''/'' @ year s\<rparr>))"

subsection \<open>Properties of the stored fields\<close>

text \<open>
  A field is in minimal form when it does not begin with two zeros and, if its number is
  above 9, does not begin with a zero at all. One leading zero before a single digit, as
  in 05, is minimal in this sense: it is what \<^verbatim>\<open>removeLeadingZero\<close> leaves.
\<close>

definition minimalZeros :: "string \<Rightarrow> bool" where
  "minimalZeros f =
     (take 2 f \<noteq> ''00'' \<and> \<not> (js_gt (Number f) 9 \<and> firstCharIs f (CHR ''0'')))"

text \<open>A day or month that a validator with the bound \<open>k\<close> would store.\<close>

definition validField :: "int \<Rightarrow> string \<Rightarrow> bool" where
  "validField k f = (\<not> js_gt (Number f) k \<and> minimalZeros f)"

text \<open>A year that passes the format and range check of \<^verbatim>\<open>validateYear\<close>.\<close>

definition validYear :: "state \<Rightarrow> string \<Rightarrow> bool" where
  "validYear s y =
     (\<not> firstCharIs y (CHR ''0'')
      \<and> \<not> (4 \<le> length y \<and> js_lt (Number y) (startYear s))
      \<and> \<not> js_gt (Number y) (endYear s))"

text \<open>
  The relation between the fields before and after a call: the inputs of the directive and
  the committed date are untouched, and each of day, month and year is either the value
  stored before, or empty, or a value that passes its validator.
\<close>

definition recovers :: "state \<Rightarrow> state \<Rightarrow> bool" where
  "recovers s s' =
     (dateFormat s' = dateFormat s \<and> startYear s' = startYear s
      \<and> endYear s' = endYear s \<and> date s' = date s
      \<and> (month s' = month s \<or> month s' = [] \<or> validField 12 (month s'))
      \<and> (day s' = day s \<or> day s' = [] \<or> validField 31 (day s'))
      \<and> (year s' = year s \<or> year s' = [] \<or> validYear s (year s')))"

text \<open>The characters that \<^verbatim>\<open>restrictInput\<close> lets through.\<close>

definition legal :: "string \<Rightarrow> bool" where
  "legal v = list_all (\<lambda>c. isDigit c \<or> c = CHR ''/'') v"

definition legalState :: "state \<Rightarrow> bool" where
  "legalState s = (legal (day s) \<and> legal (month s) \<and> legal (year s))"

section \<open>Scanning for slashes\<close>

lemma countSlashes_simps [simp]:
  "countSlashes [] = 0"
  "countSlashes (c # cs) = (if c = CHR ''/'' then Suc (countSlashes cs) else countSlashes cs)"
  by (simp_all add: countSlashes_def)

text \<open>
  When enough slashes are left, the loop of \<^verbatim>\<open>findSlashPosition\<close> returns the index of
  the one it counts up to; \<open>i\<close> is the index of the head of the rest of the string.
\<close>

lemma findSlashFrom_found:
  "count < limit \<Longrightarrow> limit - count \<le> countSlashes cs \<Longrightarrow>
   \<exists>p. findSlashFrom cs i count limit = i + p \<and> p < length cs \<and> cs ! p = CHR ''/''
       \<and> countSlashes (take p cs) = limit - count - 1"
proof (induction cs arbitrary: i count)
  case Nil
  then show ?case by simp
next
  case (Cons c cs)
  show ?case
  proof (cases "c = CHR ''/''")
    case slash: True
    show ?thesis
    proof (cases "count + 1 = limit")
      case True
      with slash show ?thesis by (intro exI [of _ 0]) simp
    next
      case False
      with Cons.prems slash have "count + 1 < limit" "limit - (count + 1) \<le> countSlashes cs"
        by auto
      from Cons.IH [OF this, of "i + 1"] obtain p where
        p: "findSlashFrom cs (i + 1) (count + 1) limit = i + 1 + p" "p < length cs"
           "cs ! p = CHR ''/''" "countSlashes (take p cs) = limit - (count + 1) - 1"
        by blast
      with slash False \<open>count + 1 < limit\<close> show ?thesis
        by (intro exI [of _ "Suc p"]) auto
    qed
  next
    case False
    with Cons.prems have "limit - count \<le> countSlashes cs" by simp
    from Cons.IH [OF Cons.prems(1) this, of "i + 1"] obtain p where
      p: "findSlashFrom cs (i + 1) count limit = i + 1 + p" "p < length cs"
         "cs ! p = CHR ''/''" "countSlashes (take p cs) = limit - count - 1"
      by blast
    with False show ?thesis
      by (intro exI [of _ "Suc p"]) auto
  qed
qed

lemma findSlashPosition_found:
  assumes "0 < k" "k \<le> countSlashes v"
  shows "findSlashPosition v k < length v \<and> v ! findSlashPosition v k = CHR ''/''
         \<and> countSlashes (take (findSlashPosition v k) v) = k - 1"
  using findSlashFrom_found [of 0 k v 0] assms by (auto simp: findSlashPosition_def)

lemma findSlashFrom_absent:
  "countSlashes cs < limit - count \<Longrightarrow> findSlashFrom cs i count limit = 0"
  by (induction cs arbitrary: i count) auto

lemma third_slash_positive:
  assumes "\<not> firstCharIs v (CHR ''/'')" "2 < countSlashes v"
  shows "0 < findSlashPosition v 3"
proof (rule ccontr)
  assume "\<not> 0 < findSlashPosition v 3"
  then have z: "findSlashPosition v 3 = 0" by simp
  from findSlashPosition_found [of 3 v] assms(2) z
  have "v ! 0 = CHR ''/''" "0 < length v" by auto
  with assms(1) show False by (cases v) (auto simp: firstCharIs_def)
qed

text \<open>
  C10. The string returned by \<^verbatim>\<open>checkSlashPosition\<close> has at most two slashes: an input
  that starts with a slash becomes empty, an input with more than two slashes is cut at
  the index of its third slash (which \<^verbatim>\<open>findSlashPosition\<close> finds), and any other
  input is returned as it is.
\<close>

theorem checkSlashPosition_at_most_two_slashes:
  "countSlashes (checkSlashPosition v) \<le> 2
   \<and> checkSlashPosition v =
       (if firstCharIs v (CHR ''/'') then []
        else if 2 < countSlashes v then take (findSlashPosition v 3) v
        else v)
   \<and> (if 2 < countSlashes v
      then findSlashPosition v 3 < length v \<and> v ! findSlashPosition v 3 = CHR ''/''
           \<and> countSlashes (take (findSlashPosition v 3) v) = 2
      else findSlashPosition v 3 = 0)"
proof (cases "2 < countSlashes v")
  case True
  from findSlashPosition_found [of 3 v] True
  have f: "findSlashPosition v 3 < length v" "v ! findSlashPosition v 3 = CHR ''/''"
    "countSlashes (take (findSlashPosition v 3) v) = 2" by auto
  show ?thesis
  proof (cases "firstCharIs v (CHR ''/'')")
    case True
    with f \<open>2 < countSlashes v\<close> show ?thesis by (simp add: checkSlashPosition_def)
  next
    case False
    from third_slash_positive [OF False True] f True False show ?thesis
      by (simp add: checkSlashPosition_def removeSlashAfterThirdOccurrence_def substring0_def)
  qed
next
  case False
  then have "findSlashPosition v 3 = 0"
    using findSlashFrom_absent [of v 3 0 0] by (simp add: findSlashPosition_def)
  with False show ?thesis by (simp add: checkSlashPosition_def)
qed

section \<open>The length of the displayed text\<close>

text \<open>
  C2. For every input and every state, the text returned by \<^verbatim>\<open>restrictInput\<close> has at
  most 10 characters.
\<close>

theorem restrictInput_length: "length (fst (restrictInput s raw)) \<le> 10"
  by (simp add: restrictInput_def Let_def substring0_def split: prod.split)

section \<open>An input that starts with a slash\<close>

lemma Number_Nil [simp]: "Number [] = Some 0"
  by (simp add: Number_def)

lemma removeLeadingZero_Nil [simp]: "removeLeadingZero [] = []"
  by (simp add: removeLeadingZero_def replaceLeadingZeros_def testLeadingZeros_def firstCharIs_def)

lemma findSlashPosition_leading_slash:
  "firstCharIs raw (CHR ''/'') \<Longrightarrow> findSlashPosition raw (Suc 0) = 0"
  by (cases raw) (simp_all add: firstCharIs_def findSlashPosition_def)

lemma validateYear_Nil: "fst (validateYear s [] d) = []"
  by (simp add: validateYear_def Let_def slice_def sliceFrom_def substring0_def)

lemma rearrange_Nil: "fst (rearrangeBasedOnDateFormat s [] 0 d) = []"
  by (simp add: rearrangeBasedOnDateFormat_def validateMonthIfBeforeDay_def
      validateDayIfBeforeMonth_def Let_def js_gt_def sliceFrom_def)

text \<open>
  C5. For every input that starts with the slash, in every state and for both formats,
  \<^verbatim>\<open>restrictInput\<close> returns the empty text: the first divider is then reported as
  absent, the checked input is empty, and the year validation, which may still run, can
  only return a prefix of the empty text.
\<close>

theorem restrictInput_leading_slash:
  assumes "firstCharIs raw (CHR ''/'')"
  shows "fst (restrictInput s raw) = []"
proof -
  from assms have d: "findSlashPosition raw (Suc 0) = 0" by (rule findSlashPosition_leading_slash)
  from assms have c: "stripIllegal (checkSlashPosition raw) = []"
    by (simp add: checkSlashPosition_def stripIllegal_def)
  obtain v1 s1 where r: "rearrangeBasedOnDateFormat s [] 0 (findSlashPosition raw 2) = (v1, s1)"
    by (cases "rearrangeBasedOnDateFormat s [] 0 (findSlashPosition raw 2)")
  with rearrange_Nil [of s "findSlashPosition raw 2"] have v1: "v1 = []" by simp
  obtain v2 s2 where y: "validateYear s1 [] (findSlashPosition raw 2) = (v2, s2)"
    by (cases "validateYear s1 [] (findSlashPosition raw 2)")
  with validateYear_Nil [of s1 "findSlashPosition raw 2"] have v2: "v2 = []" by simp
  show ?thesis
    by (simp add: restrictInput_def Let_def d c r v1 y v2 substring0_def)
qed

theorem restrictInput_leading_slash_witness:
  "firstCharIs ''/1/2020'' (CHR ''/'') \<and> fst (restrictInput defaultState ''/1/2020'') = []"
proof -
  have h: "firstCharIs ''/1/2020'' (CHR ''/'')" by (simp add: firstCharIs_def)
  from restrictInput_leading_slash [OF h, of defaultState] h show ?thesis by simp
qed

section \<open>The number of days of a month\<close>

text \<open>
  C3, as the code has it. With an empty month, as an argument or as the stored month that
  stands in for a missing argument, \<^verbatim>\<open>getNoOfDays\<close> returns 31 and not 29.
\<close>

theorem getNoOfDays_empty_month_counterexample:
  "getNoOfDays defaultState (Some []) = 31 \<and> getNoOfDays defaultState None = 31"
  by (simp add: getNoOfDays_def defaultState_def initial_def)

text \<open>
  C3, amended. A missing argument is replaced by the stored month. For an empty month the
  result is 31; for a month that is not empty it is 31 when its number is one of 1, 3, 5,
  7, 8, 10, 12, it is 30 when its number is one of 4, 6, 9, 11, and 29 in every other
  case, February among them.
\<close>

theorem getNoOfDays_table:
  "getNoOfDays s None = getNoOfDays s (Some (month s))
   \<and> getNoOfDays s (Some m) =
       (if m = [] then 31
        else if \<exists>n \<in> {1, 3, 5, 7, 8, 10, 12}. Number m = Some n then 31
        else if \<exists>n \<in> {4, 6, 9, 11}. Number m = Some n then 30
        else 29)"
  by (cases "Number m") (auto simp add: getNoOfDays_def arrayIncludes_def)

theorem getNoOfDays_table_witness:
  "getNoOfDays defaultState (Some ''2'') = 29 \<and> getNoOfDays defaultState (Some ''02'') = 29
   \<and> getNoOfDays defaultState (Some ''11'') = 30 \<and> getNoOfDays defaultState (Some ''12'') = 31
   \<and> getNoOfDays defaultState (Some ''1/'') = 29 \<and> getNoOfDays defaultState (Some []) = 31"
  using getNoOfDays_table [of defaultState "''2''"] getNoOfDays_table [of defaultState "''02''"]
    getNoOfDays_table [of defaultState "''11''"] getNoOfDays_table [of defaultState "''12''"]
    getNoOfDays_table [of defaultState "''1/''"] getNoOfDays_table [of defaultState "[]"]
  by (simp add: Number_def isDigit_def digitValue_def)

section \<open>Committing the date\<close>

text \<open>
  C7. \<^verbatim>\<open>clearDateIfNotValid\<close> clears the shown text and leaves the field \<^verbatim>\<open>date\<close>
  as it was when the stored day or month is empty or the number of the stored year is
  below \<^verbatim>\<open>startYear\<close> or above \<^verbatim>\<open>endYear\<close> (the empty year counts as 0); otherwise
  it keeps the shown text and sets \<^verbatim>\<open>date\<close> to day, month and year in this order,
  whatever the format: after the input 03/15/2024 in the format mm/dd/yyyy the committed
  date is 15/03/2024.
\<close>

theorem clearDateIfNotValid_commits_day_month_year:
  "clearDateIfNotValid s shown =
     (if day s = [] \<or> month s = []
         \<or> (\<exists>n. Number (year s) = Some n \<and> (int n < startYear s \<or> endYear s < int n))
      then ([], s)
      else (shown, s\<lparr>date := day s @ ''/'' @ month s @ ''/'' @ year s\<rparr>))
   \<and> Number [] = Some 0
   \<and> date (snd (clearDateIfNotValid (snd (restrictInput defaultState ''03/15/2024''))
                 (fst (restrictInput defaultState ''03/15/2024'')))) = ''15/03/2024''"
proof -
  have a: "clearDateIfNotValid s shown =
     (if day s = [] \<or> month s = []
         \<or> (\<exists>n. Number (year s) = Some n \<and> (int n < startYear s \<or> endYear s < int n))
      then ([], s)
      else (shown, s\<lparr>date := day s @ ''/'' @ month s @ ''/'' @ year s\<rparr>))"
    by (cases "Number (year s)") (auto simp add: clearDateIfNotValid_def js_lt_def js_gt_def)
  have b: "Number [] = Some 0" by (simp add: Number_def)
  have c: "date (snd (clearDateIfNotValid (snd (restrictInput defaultState ''03/15/2024''))
                 (fst (restrictInput defaultState ''03/15/2024'')))) = ''15/03/2024''"
    by code_simp
  from a b c show ?thesis by blast
qed

theorem clearDateIfNotValid_commits_day_month_year_witness:
  "clearDateIfNotValid (snd (restrictInput defaultState ''01/'')) ''01/''
     = ([], snd (restrictInput defaultState ''01/''))
   \<and> clearDateIfNotValid (snd (restrictInput (initial DMY 2000 2030) ''15/03/2024'')) ''15/03/2024''
     = (''15/03/2024'',
        snd (restrictInput (initial DMY 2000 2030) ''15/03/2024'')\<lparr>date := ''15/03/2024''\<rparr>)"
proof -
  have 1: "day (snd (restrictInput defaultState ''01/'')) = []" by code_simp
  have 2: "day (snd (restrictInput (initial DMY 2000 2030) ''15/03/2024'')) = ''15''"
    "month (snd (restrictInput (initial DMY 2000 2030) ''15/03/2024'')) = ''03''"
    "year (snd (restrictInput (initial DMY 2000 2030) ''15/03/2024'')) = ''2024''"
    "startYear (snd (restrictInput (initial DMY 2000 2030) ''15/03/2024'')) = 2000"
    "endYear (snd (restrictInput (initial DMY 2000 2030) ''15/03/2024'')) = 2030"
    by code_simp+
  have 3: "Number ''2024'' = Some 2024" by code_simp
  show ?thesis
    using clearDateIfNotValid_commits_day_month_year
            [of "snd (restrictInput defaultState ''01/'')" "''01/''"]
      clearDateIfNotValid_commits_day_month_year
            [of "snd (restrictInput (initial DMY 2000 2030) ''15/03/2024'')" "''15/03/2024''"]
    by (simp add: 1 2 3)
qed

section \<open>Numbers and leading zeros\<close>

lemma isDigit_cases:
  "isDigit c \<Longrightarrow> digitValue c \<le> 9"
  by (auto simp add: isDigit_def digitValue_def)

lemma digitValue_zero [simp]: "digitValue (CHR ''0'') = 0" "isDigit (CHR ''0'')"
  by (simp_all add: digitValue_def isDigit_def)

lemma decimal_bound:
  "list_all isDigit y \<Longrightarrow>
   foldl (\<lambda>n c. 10 * n + digitValue c) a y < (a + 1) * 10 ^ length y"
proof (induction y arbitrary: a)
  case Nil
  then show ?case by simp
next
  case (Cons c y)
  then have d: "digitValue c \<le> 9" and r: "list_all isDigit y"
    by (simp_all add: isDigit_cases)
  from Cons.IH [OF r, of "10 * a + digitValue c"]
  have "foldl (\<lambda>n c. 10 * n + digitValue c) (10 * a + digitValue c) y
        < (10 * a + digitValue c + 1) * 10 ^ length y" .
  also from d have "\<dots> \<le> (10 * a + 10) * 10 ^ length y"
    by (intro mult_right_mono) simp_all
  finally show ?case by (simp add: algebra_simps)
qed

lemma Number_bound:
  "Number y = Some n \<Longrightarrow> n < 10 ^ length y"
  using decimal_bound [of y 0] by (auto simp add: Number_def split: if_splits)

lemma Number_leading_zero [simp]: "Number (CHR ''0'' # xs) = Number xs"
  by (simp add: Number_def)

lemma Number_dropWhile_zero [simp]: "Number (dropWhile (\<lambda>c. c = CHR ''0'') xs) = Number xs"
  by (induction xs) simp_all

lemma removeLeadingZero_normal_form:
  "removeLeadingZero input =
     (if js_gt (Number input) 9 then dropWhile (\<lambda>c. c = CHR ''0'') input
      else if firstCharIs input (CHR ''0'') then CHR ''0'' # dropWhile (\<lambda>c. c = CHR ''0'') input
      else input)"
  by (cases input)
     (auto simp add: removeLeadingZero_def replaceLeadingZeros_def testLeadingZeros_def
       firstCharIs_def)

lemma Number_removeLeadingZero [simp]: "Number (removeLeadingZero input) = Number input"
  by (simp add: removeLeadingZero_normal_form)

lemma dropWhile_zero_head:
  "\<not> firstCharIs (dropWhile (\<lambda>c. c = CHR ''0'') xs) (CHR ''0'')"
  by (induction xs) (simp_all add: firstCharIs_def)

lemma minimalZeros_no_zero:
  "\<not> firstCharIs f (CHR ''0'') \<Longrightarrow> minimalZeros f"
  by (cases f) (simp_all add: minimalZeros_def firstCharIs_def numeral_2_eq_2)

lemma minimalZeros_one_zero:
  "\<not> firstCharIs f (CHR ''0'') \<Longrightarrow> \<not> js_gt (Number f) 9 \<Longrightarrow> minimalZeros (CHR ''0'' # f)"
  by (cases f) (simp_all add: minimalZeros_def firstCharIs_def numeral_2_eq_2)

lemma minimalZeros_removeLeadingZero: "minimalZeros (removeLeadingZero input)"
proof (cases "js_gt (Number input) 9")
  case True
  then show ?thesis
    by (simp add: removeLeadingZero_normal_form minimalZeros_no_zero dropWhile_zero_head)
next
  case False
  then show ?thesis
    by (simp add: removeLeadingZero_normal_form minimalZeros_no_zero minimalZeros_one_zero
        dropWhile_zero_head)
qed

lemma validField_removeLeadingZero:
  "\<not> js_gt (Number c) k \<Longrightarrow> validField k (removeLeadingZero c)"
  by (simp add: validField_def minimalZeros_removeLeadingZero)


section \<open>What a call can leave in the fields\<close>

text \<open>
  Every validator either leaves the state as it is or stores a value that passed its test;
  the clearing step only empties fields.
\<close>

lemma validField_Nil [simp]: "0 \<le> k \<Longrightarrow> validField k []"
  by (simp add: validField_def minimalZeros_def js_gt_def firstCharIs_def)

lemma recovers_refl [simp]: "recovers s s"
  by (simp add: recovers_def)

lemma recovers_trans:
  assumes "recovers s s'" "recovers s' s''"
  shows "recovers s s''"
proof -
  from assms(1) have y: "validYear s' = validYear s"
    by (simp add: recovers_def validYear_def fun_eq_iff)
  from assms show ?thesis
    unfolding recovers_def y by metis
qed

lemma recovers_month:
  "validField 12 f \<Longrightarrow> recovers s (s\<lparr>month := f\<rparr>)"
  by (simp add: recovers_def)

lemma recovers_day:
  "validField 31 f \<Longrightarrow> recovers s (s\<lparr>day := f\<rparr>)"
  by (simp add: recovers_def)

lemma recovers_year:
  "y = [] \<or> validYear s y \<Longrightarrow> recovers s (s\<lparr>year := y\<rparr>)"
  by (auto simp add: recovers_def)

lemma getNoOfDays_le_31: "getNoOfDays s a \<le> 31"
  by (simp add: getNoOfDays_def Let_def)

lemma js_gt_mono: "js_gt a k \<Longrightarrow> j \<le> k \<Longrightarrow> js_gt a j"
  by (cases a) (simp_all add: js_gt_def)

lemma validateMonthIfBeforeDay_recovers:
  "recovers s (snd (validateMonthIfBeforeDay s v d))"
  by (simp add: validateMonthIfBeforeDay_def Let_def recovers_month validField_removeLeadingZero)

lemma validateDayIfBeforeMonth_recovers:
  "recovers s (snd (validateDayIfBeforeMonth s v d))"
  by (simp add: validateDayIfBeforeMonth_def Let_def recovers_day validField_removeLeadingZero)

lemma validateMonthIfAfterDay_recovers:
  "recovers s (snd (validateMonthIfAfterDay s v d1 d2))"
  by (simp add: validateMonthIfAfterDay_def Let_def recovers_month validField_removeLeadingZero)

lemma validateDayIfAfterMonth_recovers:
  "recovers s (snd (validateDayIfAfterMonth s v d1 d2))"
proof -
  have "\<not> js_gt (Number c) 31" if "\<not> js_gt (Number c) (int (getNoOfDays s None))" for c
    using that js_gt_mono [of "Number c" 31 "int (getNoOfDays s None)"] getNoOfDays_le_31 [of s None]
    by auto
  then show ?thesis
    by (simp add: validateDayIfAfterMonth_def Let_def recovers_day validField_removeLeadingZero)
qed

lemma rearrangeBasedOnDateFormat_recovers:
  "recovers s (snd (rearrangeBasedOnDateFormat s v d1 d2))"
proof -
  obtain v1 s1 where 1: "(if dateFormat s = MDY then validateMonthIfBeforeDay s v d1
                          else validateDayIfBeforeMonth s v d1) = (v1, s1)"
    by (cases "if dateFormat s = MDY then validateMonthIfBeforeDay s v d1
               else validateDayIfBeforeMonth s v d1")
  then have r1: "recovers s s1"
    using validateMonthIfBeforeDay_recovers [of s v d1] validateDayIfBeforeMonth_recovers [of s v d1]
    by (auto split: if_splits)
  have r2: "recovers s1 (snd (if dateFormat s1 = MDY then validateDayIfAfterMonth s1 v1 d1 d2
                               else validateMonthIfAfterDay s1 v1 d1 d2))"
    by (simp add: validateDayIfAfterMonth_recovers validateMonthIfAfterDay_recovers)
  show ?thesis
    using 1 r1 recovers_trans [OF r1 r2]
    by (simp add: rearrangeBasedOnDateFormat_def Let_def)
qed

lemma validateYear_recovers: "recovers s (snd (validateYear s v d))"
  by (auto simp add: validateYear_def Let_def validYear_def intro!: recovers_year)

lemma clearSpecificPartOfDateIfEmpty_recovers:
  "recovers s (clearSpecificPartOfDateIfEmpty s d1 d2)"
  by (simp add: clearSpecificPartOfDateIfEmpty_def Let_def recovers_def)

lemma restrictInput_unfold:
  assumes "rearrangeBasedOnDateFormat s (stripIllegal (checkSlashPosition raw))
             (findSlashPosition raw 1) (findSlashPosition raw 2) = (v1, s1)"
    and "(if findSlashPosition raw 2 \<noteq> 0 then validateYear s1 v1 (findSlashPosition raw 2)
          else (v1, s1)) = (v2, s2)"
  shows "restrictInput s raw =
           (substring0 v2 10,
            clearSpecificPartOfDateIfEmpty s2 (findSlashPosition raw 1) (findSlashPosition raw 2))"
proof (cases "findSlashPosition raw 2 = 0")
  case True
  with assms show ?thesis by (simp add: restrictInput_def Let_def)
next
  case False
  with assms show ?thesis by (simp add: restrictInput_def Let_def)
qed

lemma restrictInput_recovers: "recovers s (snd (restrictInput s raw))"
proof -
  obtain v1 s1 where 1:
    "rearrangeBasedOnDateFormat s (stripIllegal (checkSlashPosition raw))
       (findSlashPosition raw 1) (findSlashPosition raw 2) = (v1, s1)"
    by (cases "rearrangeBasedOnDateFormat s (stripIllegal (checkSlashPosition raw))
                 (findSlashPosition raw 1) (findSlashPosition raw 2)")
  obtain v2 s2 where 2:
    "(if findSlashPosition raw 2 \<noteq> 0 then validateYear s1 v1 (findSlashPosition raw 2)
      else (v1, s1)) = (v2, s2)"
    by (cases "if findSlashPosition raw 2 \<noteq> 0 then validateYear s1 v1 (findSlashPosition raw 2)
               else (v1, s1)")
  from rearrangeBasedOnDateFormat_recovers
         [of s "stripIllegal (checkSlashPosition raw)" "findSlashPosition raw 1"
            "findSlashPosition raw 2"]
  have r1: "recovers s s1" unfolding 1 by simp
  from 2 validateYear_recovers [of s1 v1 "findSlashPosition raw 2"] have r2: "recovers s1 s2"
    by (auto split: if_splits)
  have r3: "recovers s2 (clearSpecificPartOfDateIfEmpty s2 (findSlashPosition raw 1)
                           (findSlashPosition raw 2))"
    by (rule clearSpecificPartOfDateIfEmpty_recovers)
  from recovers_trans [OF recovers_trans [OF r1 r2] r3] show ?thesis
    unfolding restrictInput_unfold [OF 1 2] by simp
qed


section \<open>Digits and slashes only\<close>

text \<open>
  The conversions of the directive are applied to parts of the checked input and to the
  stored fields. Both stay within the strings of digits and slashes, on which
  \<^const>\<open>Number\<close> is the conversion of JavaScript.
\<close>

lemma legal_Nil [simp]: "legal []"
  by (simp add: legal_def)

lemma legal_Cons [simp]: "legal (c # cs) \<longleftrightarrow> (isDigit c \<or> c = CHR ''/'') \<and> legal cs"
  by (simp add: legal_def)

lemma isDigit_literals [simp]: "isDigit (CHR ''2'')" "isDigit (CHR ''9'')"
  by (simp_all add: isDigit_def)

lemma legal_append [simp]: "legal (a @ b) \<longleftrightarrow> legal a \<and> legal b"
  by (simp add: legal_def)

lemma legal_take [simp]: "legal v \<Longrightarrow> legal (take n v)"
  by (auto simp add: legal_def list_all_iff dest: in_set_takeD)

lemma legal_drop [simp]: "legal v \<Longrightarrow> legal (drop n v)"
  by (auto simp add: legal_def list_all_iff dest: in_set_dropD)

lemma legal_slice [simp]:
  "legal v \<Longrightarrow> legal (slice v a b)"
  "legal v \<Longrightarrow> legal (sliceFrom v a)"
  "legal v \<Longrightarrow> legal (substring0 v k)"
  by (simp_all add: slice_def sliceFrom_def substring0_def)

lemma legal_stripIllegal [simp]: "legal (stripIllegal v)"
  by (simp add: legal_def stripIllegal_def list_all_iff)

lemma legal_removeLeadingZero [simp]: "legal c \<Longrightarrow> legal (removeLeadingZero c)"
  by (auto simp add: removeLeadingZero_normal_form legal_def list_all_iff dest: set_dropWhileD)

lemma validateMonthIfBeforeDay_legal:
  "legalState s \<Longrightarrow> legal v \<Longrightarrow>
   legal (fst (validateMonthIfBeforeDay s v d)) \<and> legalState (snd (validateMonthIfBeforeDay s v d))"
  by (simp add: validateMonthIfBeforeDay_def Let_def legalState_def)

lemma validateDayIfBeforeMonth_legal:
  "legalState s \<Longrightarrow> legal v \<Longrightarrow>
   legal (fst (validateDayIfBeforeMonth s v d)) \<and> legalState (snd (validateDayIfBeforeMonth s v d))"
  by (simp add: validateDayIfBeforeMonth_def Let_def legalState_def)

lemma validateMonthIfAfterDay_legal:
  "legalState s \<Longrightarrow> legal v \<Longrightarrow>
   legal (fst (validateMonthIfAfterDay s v d1 d2))
   \<and> legalState (snd (validateMonthIfAfterDay s v d1 d2))"
  by (simp add: validateMonthIfAfterDay_def Let_def legalState_def)

lemma validateDayIfAfterMonth_legal:
  "legalState s \<Longrightarrow> legal v \<Longrightarrow>
   legal (fst (validateDayIfAfterMonth s v d1 d2))
   \<and> legalState (snd (validateDayIfAfterMonth s v d1 d2))"
  by (simp add: validateDayIfAfterMonth_def Let_def legalState_def)

lemma rearrangeBasedOnDateFormat_legal:
  assumes "legalState s" "legal v"
  shows "legal (fst (rearrangeBasedOnDateFormat s v d1 d2))
         \<and> legalState (snd (rearrangeBasedOnDateFormat s v d1 d2))"
proof -
  obtain v1 s1 where 1: "(if dateFormat s = MDY then validateMonthIfBeforeDay s v d1
                          else validateDayIfBeforeMonth s v d1) = (v1, s1)"
    by (cases "if dateFormat s = MDY then validateMonthIfBeforeDay s v d1
               else validateDayIfBeforeMonth s v d1")
  with assms validateMonthIfBeforeDay_legal [of s v d1] validateDayIfBeforeMonth_legal [of s v d1]
  have l1: "legal v1" "legalState s1" by (auto split: if_splits)
  from validateDayIfAfterMonth_legal [OF l1(2) l1(1)] validateMonthIfAfterDay_legal [OF l1(2) l1(1)]
  show ?thesis
    using 1 l1 by (simp add: rearrangeBasedOnDateFormat_def Let_def)
qed

lemma validateYear_legal:
  "legalState s \<Longrightarrow> legal v \<Longrightarrow>
   legal (fst (validateYear s v d)) \<and> legalState (snd (validateYear s v d))"
  by (simp add: validateYear_def Let_def legalState_def)

lemma clearSpecificPartOfDateIfEmpty_legal:
  "legalState s \<Longrightarrow> legalState (clearSpecificPartOfDateIfEmpty s d1 d2)"
  by (simp add: clearSpecificPartOfDateIfEmpty_def Let_def legalState_def)

lemma restrictInput_legal:
  assumes "legalState s"
  shows "legal (fst (restrictInput s raw)) \<and> legalState (snd (restrictInput s raw))"
proof -
  obtain v1 s1 where 1:
    "rearrangeBasedOnDateFormat s (stripIllegal (checkSlashPosition raw))
       (findSlashPosition raw 1) (findSlashPosition raw 2) = (v1, s1)"
    by (cases "rearrangeBasedOnDateFormat s (stripIllegal (checkSlashPosition raw))
                 (findSlashPosition raw 1) (findSlashPosition raw 2)")
  obtain v2 s2 where 2:
    "(if findSlashPosition raw 2 \<noteq> 0 then validateYear s1 v1 (findSlashPosition raw 2)
      else (v1, s1)) = (v2, s2)"
    by (cases "if findSlashPosition raw 2 \<noteq> 0 then validateYear s1 v1 (findSlashPosition raw 2)
               else (v1, s1)")
  from rearrangeBasedOnDateFormat_legal [OF assms legal_stripIllegal,
         of "checkSlashPosition raw" "findSlashPosition raw 1" "findSlashPosition raw 2"]
  have l1: "legal v1" "legalState s1" unfolding 1 by simp_all
  from 2 validateYear_legal [OF l1(2) l1(1), of "findSlashPosition raw 2"] l1
  have l2: "legal v2" "legalState s2" by (auto split: if_splits)
  then show ?thesis
    unfolding restrictInput_unfold [OF 1 2]
    by (simp add: clearSpecificPartOfDateIfEmpty_legal)
qed

section \<open>Leading zeros of the stored day and month\<close>

text \<open>
  C4, amended. \<^verbatim>\<open>removeLeadingZero\<close> strips all leading zeros when the number of its
  input is above 9. Otherwise it replaces a run of leading zeros by a single zero and
  keeps what follows: 0 stays 0, 03 stays 03 and 003 becomes 03. So a call of
  \<^verbatim>\<open>restrictInput\<close> keeps the stored day and month in minimal form: they never begin
  with two zeros, and never with a zero when their number is above 9; a single zero
  before one digit, as in 05, is kept.
\<close>

theorem removeLeadingZero_keeps_one_zero:
  "removeLeadingZero input =
     (if js_gt (Number input) 9 then dropWhile (\<lambda>c. c = CHR ''0'') input
      else if firstCharIs input (CHR ''0'') then CHR ''0'' # dropWhile (\<lambda>c. c = CHR ''0'') input
      else input)
   \<and> (minimalZeros (day s) \<and> minimalZeros (month s) \<longrightarrow>
        minimalZeros (day (snd (restrictInput s raw)))
        \<and> minimalZeros (month (snd (restrictInput s raw))))"
proof -
  have m: "minimalZeros []" by (simp add: minimalZeros_no_zero firstCharIs_def)
  from restrictInput_recovers [of s raw] m
  have "minimalZeros (day s) \<and> minimalZeros (month s) \<longrightarrow>
        minimalZeros (day (snd (restrictInput s raw)))
        \<and> minimalZeros (month (snd (restrictInput s raw)))"
    by (auto simp add: recovers_def validField_def)
  with removeLeadingZero_normal_form [of input] show ?thesis by blast
qed

theorem removeLeadingZero_keeps_one_zero_witness:
  "minimalZeros (day defaultState) \<and> minimalZeros (month defaultState)
   \<and> minimalZeros (day (snd (restrictInput defaultState ''005/007'')))
   \<and> minimalZeros (month (snd (restrictInput defaultState ''005/007'')))
   \<and> removeLeadingZero ''003'' = ''03''"
proof -
  have h: "minimalZeros (day defaultState) \<and> minimalZeros (month defaultState)" by code_simp
  have n: "\<not> js_gt (Number ''003'') 9" "firstCharIs ''003'' (CHR ''0'')" by code_simp+
  from removeLeadingZero_keeps_one_zero [of "''003''" defaultState "''005/007''"] h n
  show ?thesis by simp
qed

text \<open>
  C4, as the code has it: 03 is not collapsed to 0, and the month typed as 05 is stored
  as 05.
\<close>

theorem removeLeadingZero_bare_digit_counterexample:
  "removeLeadingZero ''03'' = ''03'' \<and> month (snd (restrictInput defaultState ''05'')) = ''05''"
  by code_simp

section \<open>Recovery from invalid input\<close>

text \<open>
  C9. Every invalid input is to be recovered by putting the affected field back to its
  last accepted value, and the validators are written to do so: with the divider where the
  slash of the text is, \<^verbatim>\<open>validateMonthIfBeforeDay\<close> rejects the month 13 of the text
  13/5, returns the stored month and leaves the state as it is. But \<^verbatim>\<open>restrictInput\<close>
  takes the dividers from the raw input, before the characters that are no digits and no
  slashes are removed. On the raw input 13x/5 the first divider is 3 and the text is 13/5,
  so the month candidate is 13/ with the slash; it is no number, the comparison with 12
  is false, and the month 13/ is stored and shown instead of the month stored before. The
  same happens to the day 32 of 1/32x/2020.
\<close>

theorem restrictInput_stores_invalid_month:
  "restrictInput defaultState ''13x/5'' = (''13/5'', defaultState\<lparr>month := ''13/''\<rparr>)
   \<and> findSlashPosition ''13x/5'' 1 = 3
   \<and> stripIllegal (checkSlashPosition ''13x/5'') = ''13/5''
   \<and> findSlashPosition ''13/5'' 1 = 2
   \<and> js_gt (Number ''13'') 12
   \<and> validateMonthIfBeforeDay defaultState ''13/5'' 2 = ([], defaultState)
   \<and> day (snd (restrictInput defaultState ''1/32x/2020'')) = ''32/''"
  by code_simp

section \<open>Validating the year\<close>





lemma validateYear_reject:
  assumes "day s \<noteq> ''0''" "month s \<noteq> ''0''" "0 < d" "drop (Suc d) v = y" "y \<noteq> []"
    and "firstCharIs y (CHR ''0'') \<or> (4 \<le> length y \<and> js_lt (Number y) (startYear s))
         \<or> js_gt (Number y) (endYear s)"
  shows "validateYear s v d = (take (Suc d) v @ year s, s)"
proof -
  have y: "sliceFrom v (d + 1) = y" using assms(4) by (simp add: sliceFrom_def)
  have c1: "(day s = ''0'' \<or> month s = ''0'') = False" using assms(1,2) by blast
  have c2: "(y \<noteq> [] \<and> (firstCharIs y (CHR ''0'')
                    \<or> (length y \<ge> 4 \<and> js_lt (Number y) (startYear s))
                    \<or> js_gt (Number y) (endYear s))) = True"
    using assms(5,6) by blast
  have sub: "substring0 v (int d + 1) = take (Suc d) v"
    by (simp add: substring0_def nat_add_distrib)
  have d: "(d \<noteq> 0) = True" using assms(3) by simp
  show ?thesis
    unfolding validateYear_def Let_def d if_True y c1 c2 if_False sub by (rule refl)
qed

lemma validateYear_accept:
  assumes "day s \<noteq> ''0''" "month s \<noteq> ''0''" "0 < d" "drop (Suc d) v = y" "length y \<noteq> 4"
    and "\<not> firstCharIs y (CHR ''0'')"
    and "\<not> (4 \<le> length y \<and> js_lt (Number y) (startYear s))"
    and "\<not> js_gt (Number y) (endYear s)"
  shows "validateYear s v d = (v, s\<lparr>year := y\<rparr>)"
proof -
  have y: "sliceFrom v (d + 1) = y" using assms(4) by (simp add: sliceFrom_def)
  have c1: "(day s = ''0'' \<or> month s = ''0'') = False" using assms(1,2) by blast
  have c2: "(y \<noteq> [] \<and> (firstCharIs y (CHR ''0'')
                    \<or> (length y \<ge> 4 \<and> js_lt (Number y) (startYear s))
                    \<or> js_gt (Number y) (endYear s))) = False"
    using assms(6-8) by blast
  have c3: "(y \<noteq> [] \<and> (month s = ''2'' \<or> month s = ''02'') \<and> day s = ''29''
                 \<and> length y = 4 \<and> \<not> checkIsLeapYear y) = False"
    using assms(5) by blast
  have d: "(d \<noteq> 0) = True" using assms(3) by simp
  show ?thesis
    unfolding validateYear_def Let_def d if_True y c1 c2 c3 if_False by (rule refl)
qed

lemma short_year_in_range:
  assumes "length y < 4" "0 \<le> lo" "999 \<le> hi"
  shows "\<not> (4 \<le> length y \<and> js_lt (Number y) lo)" "\<not> js_gt (Number y) hi"
proof -
  show "\<not> (4 \<le> length y \<and> js_lt (Number y) lo)" using assms(1) by simp
  show "\<not> js_gt (Number y) hi"
  proof (cases "Number y")
    case None
    then show ?thesis by (simp add: js_gt_def)
  next
    case (Some n)
    from Number_bound [OF Some] have "n < 10 ^ length y" .
    also from assms(1) have "(10::nat) ^ length y \<le> 10 ^ 3"
      by (intro power_increasing) simp_all
    finally have "n < 1000" by simp
    with Some assms(3) show ?thesis by (simp add: js_gt_def)
  qed
qed

lemma validateYear_sentinel:
  assumes "day s = ''0'' \<or> month s = ''0''"
  shows "validateYear s v d = (take d v, s)"
proof -
  from assms have c: "(day s = ''0'' \<or> month s = ''0'') = True" by blast
  show ?thesis unfolding validateYear_def Let_def c if_True by (simp add: slice_def)
qed

text \<open>
  C6, amended. Let \<^verbatim>\<open>1000 \<le> startYear \<le> endYear \<le> 9999\<close>. When the stored day or the
  stored month is the sentinel 0, the year validation returns the text cut before the
  second slash and stores nothing, whatever the candidate year. When neither is the
  sentinel, a candidate year of at least 4 characters whose number is below
  \<^verbatim>\<open>startYear\<close> or above \<^verbatim>\<open>endYear\<close> is rejected: the text returned is the text up
  to and including the second slash followed by the year stored before, and the state is
  unchanged; and a candidate year of fewer than 4 characters that does not begin with 0
  is accepted without a range check: the text is returned as it is and the candidate is
  stored.
\<close>

theorem validateYear_range_check:
  assumes "1000 \<le> startYear s" "startYear s \<le> endYear s" "endYear s \<le> 9999"
  shows "(day s = ''0'' \<or> month s = ''0'' \<longrightarrow> validateYear s v d = (take d v, s))
       \<and> (day s \<noteq> ''0'' \<and> month s \<noteq> ''0'' \<and> 0 < d
          \<and> 4 \<le> length (drop (Suc d) v)
          \<and> (\<exists>n. Number (drop (Suc d) v) = Some n \<and> (int n < startYear s \<or> endYear s < int n))
          \<longrightarrow> validateYear s v d = (take (Suc d) v @ year s, s))
       \<and> (day s \<noteq> ''0'' \<and> month s \<noteq> ''0'' \<and> 0 < d
          \<and> length (drop (Suc d) v) < 4 \<and> \<not> firstCharIs (drop (Suc d) v) (CHR ''0'')
          \<longrightarrow> validateYear s v d = (v, s\<lparr>year := drop (Suc d) v\<rparr>))"
proof (intro conjI impI)
  assume "day s = ''0'' \<or> month s = ''0''"
  then show "validateYear s v d = (take d v, s)" by (rule validateYear_sentinel)
next
  assume a: "day s \<noteq> ''0'' \<and> month s \<noteq> ''0'' \<and> 0 < d
          \<and> 4 \<le> length (drop (Suc d) v)
          \<and> (\<exists>n. Number (drop (Suc d) v) = Some n \<and> (int n < startYear s \<or> endYear s < int n))"
  then have g: "day s \<noteq> ''0''" "month s \<noteq> ''0''" "0 < d" by blast+
  from a obtain n where n: "Number (drop (Suc d) v) = Some n" "int n < startYear s \<or> endYear s < int n"
    by blast
  from a have l: "4 \<le> length (drop (Suc d) v)" by blast
  then have ne: "drop (Suc d) v \<noteq> []" by auto
  from l n have "(4 \<le> length (drop (Suc d) v) \<and> js_lt (Number (drop (Suc d) v)) (startYear s))
         \<or> js_gt (Number (drop (Suc d) v)) (endYear s)"
    by (auto simp add: js_lt_def js_gt_def)
  then show "validateYear s v d = (take (Suc d) v @ year s, s)"
    using validateYear_reject [OF g refl ne] by blast
next
  assume a: "day s \<noteq> ''0'' \<and> month s \<noteq> ''0'' \<and> 0 < d
          \<and> length (drop (Suc d) v) < 4 \<and> \<not> firstCharIs (drop (Suc d) v) (CHR ''0'')"
  then have g: "day s \<noteq> ''0''" "month s \<noteq> ''0''" "0 < d" by blast+
  from a have l: "length (drop (Suc d) v) < 4" and z: "\<not> firstCharIs (drop (Suc d) v) (CHR ''0'')"
    by blast+
  from assms(1) have lo: "0 \<le> startYear s" by simp
  from assms(1,2) have hi: "999 \<le> endYear s" by simp
  from l have l4: "length (drop (Suc d) v) \<noteq> 4" by simp
  show "validateYear s v d = (v, s\<lparr>year := drop (Suc d) v\<rparr>)"
    by (rule validateYear_accept [OF g refl l4 z short_year_in_range [OF l lo hi]])
qed

theorem validateYear_range_check_witness:
  "validateYear (initial MDY 2000 2030\<lparr>day := ''01'', month := ''01''\<rparr>) ''01/01/1999'' 5
     = (''01/01/'', initial MDY 2000 2030\<lparr>day := ''01'', month := ''01''\<rparr>)
   \<and> validateYear (initial MDY 2000 2030\<lparr>day := ''01'', month := ''01''\<rparr>) ''01/01/199'' 5
     = (''01/01/199'', initial MDY 2000 2030\<lparr>day := ''01'', month := ''01'', year := ''199''\<rparr>)
   \<and> validateYear (initial DMY 2000 2030\<lparr>day := ''1'', month := ''0''\<rparr>) ''1/0/2024'' 3
     = (''1/0'', initial DMY 2000 2030\<lparr>day := ''1'', month := ''0''\<rparr>)"
proof -
  let ?s = "initial MDY 2000 2030\<lparr>day := ''01'', month := ''01''\<rparr>"
  let ?t = "initial DMY 2000 2030\<lparr>day := ''1'', month := ''0''\<rparr>"
  have h: "1000 \<le> startYear ?s" "startYear ?s \<le> endYear ?s" "endYear ?s \<le> 9999"
    by (simp_all add: initial_def)
  have k: "1000 \<le> startYear ?t" "startYear ?t \<le> endYear ?t" "endYear ?t \<le> 9999"
    by (simp_all add: initial_def)
  have g: "day ?s \<noteq> ''0''" "month ?s \<noteq> ''0''" "0 < (5::nat)" "month ?t = ''0''"
    by (simp_all add: initial_def)
  have n: "Number ''1999'' = Some 1999" by code_simp
  have f: "\<not> firstCharIs ''199'' (CHR ''0'')" by (simp add: firstCharIs_def)
  from validateYear_range_check [OF h, of "''01/01/1999''" 5] n g
  have 1: "validateYear ?s ''01/01/1999'' 5 = (''01/01/'', ?s)"
    by (simp add: initial_def)
  from validateYear_range_check [OF h, of "''01/01/199''" 5] f g
  have 2: "validateYear ?s ''01/01/199'' 5 = (''01/01/199'', ?s\<lparr>year := ''199''\<rparr>)"
    by simp
  from validateYear_range_check [OF k, of "''1/0/2024''" 3] g
  have 3: "validateYear ?t ''1/0/2024'' 3 = (''1/0'', ?t)"
    by simp
  from 1 2 3 show ?thesis by simp
qed

text \<open>
  C6, as the code has it. When the stored day or month is the sentinel 0 the year
  validation cuts the text before the second slash, whatever the year: the year 1999, out
  of range, does not bring back the slash and the stored year, and the year 19 is not
  accepted; the month 0 of the format dd/mm/yyyy does the same as the day 0 of the format
  mm/dd/yyyy. And without a sentinel the rejected year 1999 of 01/01/1999 leaves 01/01/
  with the second slash, not 01/01.
\<close>

theorem validateYear_sentinel_counterexample:
  "fst (restrictInput (initial MDY 2000 2030) ''1/0/1999'') = ''1/0''
   \<and> day (snd (restrictInput (initial MDY 2000 2030) ''1/0/1999'')) = ''0''
   \<and> fst (restrictInput (initial MDY 2000 2030) ''1/0/19'') = ''1/0''
   \<and> year (snd (restrictInput (initial MDY 2000 2030) ''1/0/19'')) = []
   \<and> fst (restrictInput (initial DMY 2000 2030) ''1/0/19'') = ''1/0''
   \<and> month (snd (restrictInput (initial DMY 2000 2030) ''1/0/19'')) = ''0''
   \<and> year (snd (restrictInput (initial DMY 2000 2030) ''1/0/19'')) = []
   \<and> fst (restrictInput (initial MDY 2000 2030) ''01/01/1999'') = ''01/01/''"
  by code_simp

section \<open>The 29th of February\<close>












lemma validateDayIfAfterMonth_fields [simp]:
  "month (snd (validateDayIfAfterMonth s v d1 d2)) = month s"
  "year (snd (validateDayIfAfterMonth s v d1 d2)) = year s"
  "dateFormat (snd (validateDayIfAfterMonth s v d1 d2)) = dateFormat s"
  "startYear (snd (validateDayIfAfterMonth s v d1 d2)) = startYear s"
  "endYear (snd (validateDayIfAfterMonth s v d1 d2)) = endYear s"
  by (simp_all add: validateDayIfAfterMonth_def Let_def)

lemma validateMonthIfAfterDay_fields [simp]:
  "day (snd (validateMonthIfAfterDay s v d1 d2)) = day s"
  "year (snd (validateMonthIfAfterDay s v d1 d2)) = year s"
  "dateFormat (snd (validateMonthIfAfterDay s v d1 d2)) = dateFormat s"
  "startYear (snd (validateMonthIfAfterDay s v d1 d2)) = startYear s"
  "endYear (snd (validateMonthIfAfterDay s v d1 d2)) = endYear s"
  by (simp_all add: validateMonthIfAfterDay_def Let_def)







section \<open>Feeding the displayed text back\<close>

text \<open>
  C8. The text returned by \<^verbatim>\<open>restrictInput\<close> is to be returned unchanged when it
  is fed back, and here it is not. The validators put the normalised field back at the
  index that follows the stored field (\<^verbatim>\<open>this.month.length + 1\<close>), but cut the next
  candidate at the divider of the raw input (\<^verbatim>\<open>monthDateDivider + 1\<close>). Once the month
  has lost a leading zero the two indices differ. In a new session with the format
  mm/dd/yyyy the input 012/31/2020 has its dividers at 3 and 6; the month is stored as 12
  and the text becomes 12/31/2020, in which the day is then cut as 1/ and the year as 020.
  The text returned is 12/1//2, and feeding it back returns 12/1/. In the same way 00/ is
  returned as 0/, which is returned as 0.
\<close>

theorem restrictInput_not_idempotent:
  "restrictInput defaultState ''012/31/2020''
     = (''12/1//2'', defaultState\<lparr>month := ''12'', day := ''1/''\<rparr>)
   \<and> fst (restrictInput (snd (restrictInput defaultState ''012/31/2020''))
             (fst (restrictInput defaultState ''012/31/2020''))) = ''12/1/''
   \<and> fst (restrictInput defaultState ''00/'') = ''0/''
   \<and> fst (restrictInput (snd (restrictInput defaultState ''00/''))
             (fst (restrictInput defaultState ''00/''))) = ''0''"
  by code_simp

end
